theory Spec2Isabelle
  imports Complex_Main
begin

unbundle bit_operations_syntax

section \<open>The EA-PS2000 driver \<^verbatim>\<open>ps2000.py\<close>: data model\<close>

text \<open>
  Python integers are unbounded and are modelled as \<^typ>\<open>int\<close>. A \<^verbatim>\<open>bytes\<close> or
  \<^verbatim>\<open>bytearray\<close> value is the list of its elements read as Python integers; the range
  check that \<^verbatim>\<open>bytearray.append\<close>, \<^verbatim>\<open>bytearray.extend\<close> and item assignment
  perform (\<^verbatim>\<open>ValueError\<close> outside \<^verbatim>\<open>range(256)\<close>) is written out where the source
  stores into a bytearray. Exceptions are values of \<open>py_error\<close>; \<^verbatim>\<open>sys.exit(1)\<close> raises
  \<^verbatim>\<open>SystemExit(1)\<close>. Text written by \<^verbatim>\<open>print\<close> is collected in a string.
\<close>

datatype py_error =
    ValueError
  | IndexError
  | ZeroDivisionError
  | OverflowError
  | SerialException
  | KeyboardInterrupt
  | SystemExit int

definition PS_QUERY :: int where
  "PS_QUERY = 0x40"

definition PS_SEND :: int where
  "PS_SEND = 0xC0"

definition is_byte :: "int \<Rightarrow> bool" where
  "is_byte v \<longleftrightarrow> 0 \<le> v \<and> v < 256"

subsection \<open>Formatting of printed text\<close>

definition newline :: string where
  "newline = [CHR 0x0A]"

definition digit_char :: "nat \<Rightarrow> char" where
  "digit_char d = ''0123456789abcdef'' ! d"

fun digits :: "nat \<Rightarrow> nat \<Rightarrow> string" where
  "digits base n =
     (if base < 2 \<or> n < base then [digit_char n]
      else digits base (n div base) @ [digit_char (n mod base)])"

declare digits.simps [simp del]

text \<open>\<^verbatim>\<open>"%02x " % b\<close> for a byte \<open>b\<close>: at least two lower-case hexadecimal digits.\<close>

definition fmt_02x :: "int \<Rightarrow> string" where
  "fmt_02x b =
     (let d = digits 16 (nat b) in (if length d < 2 then ''0'' @ d else d) @ '' '')"

text \<open>\<^verbatim>\<open>"%d" % n\<close> for a length \<open>n\<close>.\<close>

definition fmt_d :: "nat \<Rightarrow> string" where
  "fmt_d n = digits 10 n"

text \<open>The loop \<^verbatim>\<open>for b in ans: print("%02x " % (b), end="")\<close> followed by \<^verbatim>\<open>print()\<close>.\<close>

definition hex_dump :: "int list \<Rightarrow> string" where
  "hex_dump bs = concat (map fmt_02x bs) @ newline"

section \<open>Telegram codec\<close>

subsection \<open>\<^verbatim>\<open>_construct\<close>\<close>

text \<open>
  The last two statements of \<^verbatim>\<open>_construct\<close>: the sum of all bytes so far, its part
  above bit 8 and its low eight bits appended. \<^verbatim>\<open>telegram.append(cs >> 8)\<close> raises
  \<^verbatim>\<open>ValueError\<close> when the sum does not fit in sixteen bits.
\<close>

definition append_checksum :: "int list \<Rightarrow> py_error + int list" where
  "append_checksum telegram =
     (let cs = sum_list telegram in
      if \<not> is_byte (drop_bit 8 cs) then Inl ValueError
      else Inr (telegram @ [drop_bit 8 cs, cs AND 0xFF]))"

text \<open>
  \<^verbatim>\<open>_construct(type, node, obj, data)\<close>. The callers pass \<^verbatim>\<open>""\<close> (modelled as the empty
  list) or a list of integers as \<open>data\<close>.
\<close>

definition construct_telegram :: "int \<Rightarrow> int \<Rightarrow> int \<Rightarrow> int list \<Rightarrow> py_error + int list" where
  "construct_telegram ty node obj data =
     (if \<not> is_byte (0x30 + ty) then Inl ValueError
      else if \<not> is_byte node then Inl ValueError
      else if \<not> is_byte obj then Inl ValueError
      else
        let telegram = [0x30 + ty, node, obj] in
        if length data > 0 then
          if \<not> list_all is_byte data then Inl ValueError
          else
            let telegram = telegram @ data;
                sd = telegram ! 0 + (int (length data) - 1)
            in if \<not> is_byte sd then Inl ValueError
               else append_checksum (telegram[0 := sd])
        else append_checksum telegram)"

subsection \<open>\<^verbatim>\<open>_check_checksum\<close>\<close>

text \<open>
  The result is paired with the text printed. \<^verbatim>\<open>ans[0:-2]\<close> is empty for fewer than
  two bytes, and \<^verbatim>\<open>ans[-2]\<close> then raises \<^verbatim>\<open>IndexError\<close>.
\<close>

definition check_checksum :: "int list \<Rightarrow> (py_error + bool) \<times> string" where
  "check_checksum ans =
     (let cs = sum_list (take (length ans - 2) ans) in
      if length ans < 2 then (Inl IndexError, [])
      else if ans ! (length ans - 2) \<noteq> drop_bit 8 cs \<or> ans ! (length ans - 1) \<noteq> cs AND 0xFF
        then (Inl (SystemExit 1), ''ERROR: checksum mismatch'' @ newline)
      else (Inr True, []))"

subsection \<open>\<^verbatim>\<open>_check_error\<close>\<close>

text \<open>The \<^verbatim>\<open>elif\<close> chain over \<^verbatim>\<open>ans[3]\<close>; a code outside the table prints no line.\<close>

definition error_text :: "int \<Rightarrow> string" where
  "error_text code =
     (if code = 0x03 then ''ERROR: checksum incorrect'' @ newline
      else if code = 0x04 then ''ERROR: start delimiter incorrect'' @ newline
      else if code = 0x05 then ''ERROR: wrong address for output'' @ newline
      else if code = 0x07 then ''ERROR: object not defined'' @ newline
      else if code = 0x08 then ''ERROR: object length incorrect'' @ newline
      else if code = 0x09 then ''ERROR: access denied'' @ newline
      else if code = 0x0F then ''ERROR: device is locked'' @ newline
      else if code = 0x30 then ''ERROR: upper limit exceeded'' @ newline
      else if code = 0x31 then ''ERROR: lower limt exceeded'' @ newline
      else [])"

definition check_error :: "int list \<Rightarrow> (py_error + bool) \<times> string" where
  "check_error ans =
     (if length ans < 3 then (Inl IndexError, [])
      else if ans ! 2 \<noteq> 0xFF then (Inr False, [])
      else if length ans < 4 then (Inl IndexError, [])
      else if ans ! 3 = 0x00 then (Inr False, [])
      else (Inl (SystemExit 1), error_text (ans ! 3) @ ''answer: '' @ hex_dump ans))"

section \<open>Floating-point numbers\<close>

text \<open>
  A Python \<^verbatim>\<open>float\<close> is an IEEE 754 binary64 value: a finite number, an infinity or
  NaN. A finite float is read as the real number it denotes; the sign of a zero, which
  none of the operations below lets a caller observe, is dropped.
\<close>

datatype pyfloat = Finite real | PInf | NInf | NaN

text \<open>The nearest integer, ties to the even one.\<close>

definition py_round :: "real \<Rightarrow> int" where
  "py_round x =
     (let f = \<lfloor>x\<rfloor>; d = x - of_int f in
      if d < 1 / 2 then f
      else if 1 / 2 < d then f + 1
      else if even f then f else f + 1)"

text \<open>
  The binary64 value of an exact result: rounded to nearest, ties to even, to 53
  significant bits, where the exponent of the last bit does not go below that of the
  subnormal numbers (\<open>-1074\<close>), and an infinity of the same sign when the rounded
  magnitude reaches 2 to the power 1024.
\<close>

definition round_binary64 :: "real \<Rightarrow> pyfloat" where
  "round_binary64 x =
     (if x = 0 then Finite 0
      else
        let e = max \<lfloor>log 2 \<bar>x\<bar>\<rfloor> (- 1022) - 52;
            y = of_int (py_round (x / 2 powr of_int e)) * 2 powr of_int e
        in if 2 powr 1024 \<le> \<bar>y\<bar> then (if 0 < x then PInf else NInf) else Finite y)"

definition signed_inf :: "bool \<Rightarrow> pyfloat" where
  "signed_inf negative = (if negative then NInf else PInf)"

text \<open>\<^verbatim>\<open>x * y\<close> on floats; it never raises.\<close>

fun float_mul :: "pyfloat \<Rightarrow> pyfloat \<Rightarrow> pyfloat" where
  "float_mul (Finite a) (Finite b) = round_binary64 (a * b)"
| "float_mul (Finite a) PInf = (if a = 0 then NaN else signed_inf (a < 0))"
| "float_mul (Finite a) NInf = (if a = 0 then NaN else signed_inf (0 < a))"
| "float_mul PInf (Finite b) = (if b = 0 then NaN else signed_inf (b < 0))"
| "float_mul NInf (Finite b) = (if b = 0 then NaN else signed_inf (0 < b))"
| "float_mul PInf PInf = PInf"
| "float_mul PInf NInf = NInf"
| "float_mul NInf PInf = NInf"
| "float_mul NInf NInf = PInf"
| "float_mul NaN y = NaN"
| "float_mul x NaN = NaN"

text \<open>
  \<^verbatim>\<open>x / y\<close> on floats: \<^verbatim>\<open>ZeroDivisionError\<close> whenever the divisor is a zero, whatever
  the dividend.
\<close>

fun float_truediv :: "pyfloat \<Rightarrow> pyfloat \<Rightarrow> py_error + pyfloat" where
  "float_truediv (Finite a) (Finite b) =
     (if b = 0 then Inl ZeroDivisionError else Inr (round_binary64 (a / b)))"
| "float_truediv PInf (Finite b) =
     (if b = 0 then Inl ZeroDivisionError else Inr (signed_inf (b < 0)))"
| "float_truediv NInf (Finite b) =
     (if b = 0 then Inl ZeroDivisionError else Inr (signed_inf (0 < b)))"
| "float_truediv NaN (Finite b) =
     (if b = 0 then Inl ZeroDivisionError else Inr NaN)"
| "float_truediv (Finite a) PInf = Inr (Finite 0)"
| "float_truediv (Finite a) NInf = Inr (Finite 0)"
| "float_truediv PInf PInf = Inr NaN"
| "float_truediv PInf NInf = Inr NaN"
| "float_truediv NInf PInf = Inr NaN"
| "float_truediv NInf NInf = Inr NaN"
| "float_truediv NaN PInf = Inr NaN"
| "float_truediv NaN NInf = Inr NaN"
| "float_truediv x NaN = Inr NaN"

text \<open>\<^verbatim>\<open>x < y\<close> on floats: false as soon as one of them is NaN.\<close>

fun float_lt :: "pyfloat \<Rightarrow> pyfloat \<Rightarrow> bool" where
  "float_lt (Finite a) (Finite b) \<longleftrightarrow> a < b"
| "float_lt (Finite a) PInf \<longleftrightarrow> True"
| "float_lt NInf (Finite b) \<longleftrightarrow> True"
| "float_lt NInf PInf \<longleftrightarrow> True"
| "float_lt x y \<longleftrightarrow> False"

text \<open>
  The conversion of an integer operand in mixed arithmetic: correctly rounded, and
  \<^verbatim>\<open>OverflowError\<close> for an integer beyond the range of the floats.
\<close>

definition float_of_int :: "int \<Rightarrow> py_error + pyfloat" where
  "float_of_int v =
     (case round_binary64 (of_int v) of
        Finite y \<Rightarrow> Inr (Finite y)
      | _ \<Rightarrow> Inl OverflowError)"

text \<open>
  \<^verbatim>\<open>round(x)\<close> on a float, without a number of digits: the nearest Python integer, ties
  to even; \<^verbatim>\<open>OverflowError\<close> for an infinity and \<^verbatim>\<open>ValueError\<close> for NaN.
\<close>

fun float_round :: "pyfloat \<Rightarrow> py_error + int" where
  "float_round (Finite a) = Inr (py_round a)"
| "float_round PInf = Inl OverflowError"
| "float_round NInf = Inl OverflowError"
| "float_round NaN = Inl ValueError"

section \<open>The session object and its serial port\<close>

text \<open>
  An instance of class \<^verbatim>\<open>ps2000\<close>. The attributes \<^verbatim>\<open>verbose\<close>, \<^verbatim>\<open>u_nom\<close>, \<^verbatim>\<open>i_nom\<close>
  and \<^verbatim>\<open>triple\<close> are fields; the nominal values are the floats that
  \<^verbatim>\<open>__init__\<close> decodes from the first answers of the device. Of \<^verbatim>\<open>ser_dev\<close> the
  model keeps whether the port is open, the byte strings handed to \<^verbatim>\<open>write\<close> so far (oldest first) and the byte strings that the
  coming reads will find in the receive buffer; a read with an empty buffer runs into the
  timeout and returns no bytes. \<open>stdout\<close> is the text printed so far.
\<close>

record ps2000 =
  verbose :: bool
  u_nom :: pyfloat
  i_nom :: pyfloat
  triple :: bool
  port_open :: bool
  written :: "int list list"
  incoming :: "int list list"
  stdout :: string

definition print :: "string \<Rightarrow> ps2000 \<Rightarrow> ps2000" where
  "print txt s = s\<lparr>stdout := stdout s @ txt\<rparr>"

text \<open>\<^verbatim>\<open>ser_dev.write\<close> and \<^verbatim>\<open>ser_dev.read\<close>; pySerial raises on a port that is not open.\<close>

definition ser_write :: "int list \<Rightarrow> ps2000 \<Rightarrow> (py_error + unit) \<times> ps2000" where
  "ser_write telegram s =
     (if \<not> port_open s then (Inl SerialException, s)
      else (Inr (), s\<lparr>written := written s @ [telegram]\<rparr>))"

definition ser_read :: "nat \<Rightarrow> ps2000 \<Rightarrow> (py_error + int list) \<times> ps2000" where
  "ser_read n s =
     (if \<not> port_open s then (Inl SerialException, s)
      else case incoming s of
        [] \<Rightarrow> (Inr [], s)
      | r # rs \<Rightarrow>
          (Inr (take n r), s\<lparr>incoming := (if length r \<le> n then rs else drop n r # rs)\<rparr>))"

text \<open>What the next \<^verbatim>\<open>ser_dev.read(100)\<close> on an open port returns.\<close>

definition receive :: "ps2000 \<Rightarrow> int list" where
  "receive s = (case incoming s of [] \<Rightarrow> [] | r # rs \<Rightarrow> take 100 r)"

definition close :: "ps2000 \<Rightarrow> (py_error + unit) \<times> ps2000" where
  "close s = (Inr (), s\<lparr>port_open := False\<rparr>)"

subsection \<open>\<^verbatim>\<open>_transfer\<close>\<close>

definition transfer ::
  "int \<Rightarrow> int \<Rightarrow> int \<Rightarrow> int list \<Rightarrow> ps2000 \<Rightarrow> (py_error + int list) \<times> ps2000" where
  "transfer ty node obj data s =
     (case construct_telegram ty node obj data of
        Inl e \<Rightarrow> (Inl e, s)
      | Inr telegram \<Rightarrow>
          let s1 = (if verbose s then print (''* telegram: '' @ hex_dump telegram) s else s) in
          (case ser_write telegram s1 of
             (Inl e, s2) \<Rightarrow> (Inl e, s2)
           | (Inr _, s2) \<Rightarrow>
               (case ser_read 100 s2 of
                  (Inl e, s3) \<Rightarrow> (Inl e, s3)
                | (Inr ans, s3) \<Rightarrow>
                    let s4 = (if verbose s3 then print (''* answer:   '' @ hex_dump ans) s3
                              else s3) in
                    if length ans < 5 then
                      (Inl (SystemExit 1),
                       print (''ERROR: short answer ('' @ fmt_d (length ans)
                              @ '' bytes received)'' @ newline) s4)
                    else
                      (case check_checksum ans of
                         (Inl e, out) \<Rightarrow> (Inl e, print out s4)
                       | (Inr _, out) \<Rightarrow>
                           (case check_error ans of
                              (Inl e, out') \<Rightarrow> (Inl e, print out' (print out s4))
                            | (Inr _, out') \<Rightarrow> (Inr ans, print out' (print out s4)))))))"

section \<open>Typed object accessors\<close>

text \<open>The slice \<^verbatim>\<open>ans[3:-2]\<close>.\<close>

definition payload :: "int list \<Rightarrow> int list" where
  "payload ans = drop 3 (take (length ans - 2) ans)"

definition get_binary :: "int \<Rightarrow> int \<Rightarrow> ps2000 \<Rightarrow> (py_error + int list) \<times> ps2000" where
  "get_binary obj node s =
     (case transfer PS_QUERY node obj [] s of
        (Inl e, s') \<Rightarrow> (Inl e, s')
      | (Inr ans, s') \<Rightarrow> (Inr (payload ans), s'))"

definition set_binary ::
  "int \<Rightarrow> int \<Rightarrow> int \<Rightarrow> int \<Rightarrow> ps2000 \<Rightarrow> (py_error + int list) \<times> ps2000" where
  "set_binary obj msk data node s =
     (case transfer PS_SEND node obj [msk, data] s of
        (Inl e, s') \<Rightarrow> (Inl e, s')
      | (Inr ans, s') \<Rightarrow> (Inr (payload ans), s'))"

text \<open>
  \<^verbatim>\<open>(ans[3] << 8) + ans[4]\<close>: both indices exist, since \<^verbatim>\<open>_transfer\<close> returns at least
  five bytes.
\<close>

definition get_integer :: "int \<Rightarrow> int \<Rightarrow> ps2000 \<Rightarrow> (py_error + int) \<times> ps2000" where
  "get_integer obj node s =
     (case transfer PS_QUERY node obj [] s of
        (Inl e, s') \<Rightarrow> (Inl e, s')
      | (Inr ans, s') \<Rightarrow> (Inr (push_bit 8 (ans ! 3) + ans ! 4), s'))"

definition set_integer :: "int \<Rightarrow> int \<Rightarrow> int \<Rightarrow> ps2000 \<Rightarrow> (py_error + int) \<times> ps2000" where
  "set_integer obj data node s =
     (case transfer PS_SEND node obj [drop_bit 8 data, data AND 0xFF] s of
        (Inl e, s') \<Rightarrow> (Inl e, s')
      | (Inr ans, s') \<Rightarrow> (Inr (push_bit 8 (ans ! 3) + ans ! 4), s'))"

section \<open>Device session\<close>

subsection \<open>Scaled accessors\<close>

text \<open>
  The expression \<^verbatim>\<open>nom * v / 25600\<close> of the scaled getters, \<open>nom\<close> a float and \<open>v\<close>
  an integer.
\<close>

definition raw_to_physical :: "pyfloat \<Rightarrow> int \<Rightarrow> py_error + pyfloat" where
  "raw_to_physical nom v =
     (case float_of_int v of
        Inl e \<Rightarrow> Inl e
      | Inr fv \<Rightarrow> float_truediv (float_mul nom fv) (Finite 25600))"

text \<open>
  The expression \<^verbatim>\<open>int(round((u * 25600.0) / nom))\<close> of \<^verbatim>\<open>set_voltage\<close> and
  \<^verbatim>\<open>set_current\<close>, \<open>u\<close> and \<open>nom\<close> floats.
\<close>

definition physical_to_raw :: "pyfloat \<Rightarrow> pyfloat \<Rightarrow> py_error + int" where
  "physical_to_raw u nom =
     (case float_truediv (float_mul u (Finite 25600)) nom of
        Inl e \<Rightarrow> Inl e
      | Inr q \<Rightarrow> float_round q)"

definition get_OVP_threshold :: "int \<Rightarrow> ps2000 \<Rightarrow> (py_error + pyfloat) \<times> ps2000" where
  "get_OVP_threshold node s =
     (case get_integer 38 0 s of
        (Inl e, s') \<Rightarrow> (Inl e, s')
      | (Inr v, s') \<Rightarrow> (raw_to_physical (u_nom s') v, s'))"

definition set_OVP_threshold :: "int \<Rightarrow> int \<Rightarrow> ps2000 \<Rightarrow> (py_error + int) \<times> ps2000" where
  "set_OVP_threshold u node s = set_integer 38 u node s"

definition get_OCP_threshold :: "int \<Rightarrow> ps2000 \<Rightarrow> (py_error + pyfloat) \<times> ps2000" where
  "get_OCP_threshold node s =
     (case get_integer 39 node s of
        (Inl e, s') \<Rightarrow> (Inl e, s')
      | (Inr i, s') \<Rightarrow> (raw_to_physical (i_nom s') i, s'))"

definition set_OCP_threshold :: "int \<Rightarrow> int \<Rightarrow> ps2000 \<Rightarrow> (py_error + int) \<times> ps2000" where
  "set_OCP_threshold i node s = set_integer 39 i node s"

definition get_voltage_setpoint :: "int \<Rightarrow> ps2000 \<Rightarrow> (py_error + pyfloat) \<times> ps2000" where
  "get_voltage_setpoint node s =
     (case get_integer 50 node s of
        (Inl e, s') \<Rightarrow> (Inl e, s')
      | (Inr v, s') \<Rightarrow> (raw_to_physical (u_nom s') v, s'))"

definition set_voltage :: "pyfloat \<Rightarrow> int \<Rightarrow> ps2000 \<Rightarrow> (py_error + int) \<times> ps2000" where
  "set_voltage u node s =
     (case physical_to_raw u (u_nom s) of
        Inl e \<Rightarrow> (Inl e, s)
      | Inr raw \<Rightarrow> set_integer 50 raw node s)"

definition get_current_setpoint :: "int \<Rightarrow> ps2000 \<Rightarrow> (py_error + pyfloat) \<times> ps2000" where
  "get_current_setpoint node s =
     (case get_integer 51 node s of
        (Inl e, s') \<Rightarrow> (Inl e, s')
      | (Inr i, s') \<Rightarrow> (raw_to_physical (i_nom s') i, s'))"

definition set_current :: "pyfloat \<Rightarrow> int \<Rightarrow> ps2000 \<Rightarrow> (py_error + int) \<times> ps2000" where
  "set_current i node s =
     (case physical_to_raw i (i_nom s) of
        Inl e \<Rightarrow> (Inl e, s)
      | Inr raw \<Rightarrow> set_integer 51 raw node s)"

subsection \<open>Control bits (object 54)\<close>

text \<open>
  \<^verbatim>\<open>ans[0] == 0xFF and ans[1] == 0x00\<close> on the payload: each index raises
  \<^verbatim>\<open>IndexError\<close> when it is reached and the payload is too short, and \<^verbatim>\<open>and\<close> does not
  evaluate its right operand when the left one is false.
\<close>

definition set_control :: "int \<Rightarrow> int \<Rightarrow> int \<Rightarrow> ps2000 \<Rightarrow> (py_error + bool) \<times> ps2000" where
  "set_control msk data node s =
     (case set_binary 54 msk data node s of
        (Inl e, s') \<Rightarrow> (Inl e, s')
      | (Inr ans, s') \<Rightarrow>
          if length ans < 1 then (Inl IndexError, s')
          else if ans ! 0 \<noteq> 0xFF then (Inr False, s')
          else if length ans < 2 then (Inl IndexError, s')
          else (Inr (ans ! 1 = 0x00), s'))"

definition set_remote :: "bool \<Rightarrow> int \<Rightarrow> ps2000 \<Rightarrow> (py_error + bool) \<times> ps2000" where
  "set_remote remote node s =
     (if remote then set_control 0x10 0x10 node s
      else set_control 0x10 0x00 node s)"

definition set_output_on :: "bool \<Rightarrow> int \<Rightarrow> ps2000 \<Rightarrow> (py_error + bool) \<times> ps2000" where
  "set_output_on on node s =
     (if on then set_control 0x01 0x01 node s
      else set_control 0x01 0x00 node s)"

subsection \<open>The remote-control scope\<close>

text \<open>\<^verbatim>\<open>__enter__\<close> and \<^verbatim>\<open>__exit__\<close>; the latter returns \<^verbatim>\<open>None\<close>.\<close>

definition enter :: "ps2000 \<Rightarrow> (py_error + unit) \<times> ps2000" where
  "enter s =
     (case set_remote True 0 s of
        (Inl e, s1) \<Rightarrow> (Inl e, s1)
      | (Inr _, s1) \<Rightarrow>
          if triple s1 then
            (case set_remote True 1 s1 of
               (Inl e, s2) \<Rightarrow> (Inl e, s2)
             | (Inr _, s2) \<Rightarrow> (Inr (), s2))
          else (Inr (), s1))"

definition exit_scope :: "ps2000 \<Rightarrow> (py_error + unit) \<times> ps2000" where
  "exit_scope s =
     (case set_remote False 0 s of
        (Inl e, s1) \<Rightarrow> (Inl e, s1)
      | (Inr _, s1) \<Rightarrow>
          if triple s1 then
            (case set_remote False 1 s1 of
               (Inl e, s2) \<Rightarrow> (Inl e, s2)
             | (Inr _, s2) \<Rightarrow> close s2)
          else close s1)"

text \<open>
  The statement \<^verbatim>\<open>with ps as ps: body\<close> on a constructed session: \<^verbatim>\<open>__exit__\<close> runs
  after the body however the body ended; since it returns \<^verbatim>\<open>None\<close>, an exception of the
  body is raised again after it, and an exception of \<^verbatim>\<open>__exit__\<close> itself replaces the
  outcome of the body.
\<close>

definition with_ps2000 ::
  "(ps2000 \<Rightarrow> (py_error + 'a) \<times> ps2000) \<Rightarrow> ps2000 \<Rightarrow> (py_error + 'a) \<times> ps2000" where
  "with_ps2000 body s =
     (case enter s of
        (Inl e, s1) \<Rightarrow> (Inl e, s1)
      | (Inr _, s1) \<Rightarrow>
          (case body s1 of
             (r, s2) \<Rightarrow>
               (case exit_scope s2 of
                  (Inl e, s3) \<Rightarrow> (Inl e, s3)
                | (Inr _, s3) \<Rightarrow> (r, s3))))"

section \<open>A session for examples\<close>

text \<open>
  A session as \<^verbatim>\<open>__init__\<close> leaves it on a device with 24 V and 10 A nominal values:
  port open, nothing written or printed yet. The argument lists the answers that the
  device is going to give.
\<close>

definition example_session :: "int list list \<Rightarrow> ps2000" where
  "example_session answers =
     \<lparr>verbose = False, u_nom = Finite 24, i_nom = Finite 10, triple = False, port_open = True,
      written = [], incoming = answers, stdout = []\<rparr>"

section \<open>Properties of the telegram codec\<close>

text \<open>The definitions that evaluate a call on a concrete session.\<close>

lemmas run_defs =
  example_session_def is_byte_def PS_SEND_def PS_QUERY_def
  enter_def exit_scope_def with_ps2000_def close_def
  set_remote_def set_control_def set_binary_def get_integer_def transfer_def
  construct_telegram_def append_checksum_def ser_write_def ser_read_def
  check_checksum_def check_error_def payload_def print_def
  fmt_d_def digits.simps digit_char_def

lemma sum_list_bytes:
  "list_all is_byte xs \<Longrightarrow> 0 \<le> sum_list xs \<and> sum_list xs \<le> 255 * int (length xs)"
  by (induction xs) (auto simp: is_byte_def)

lemma drop_bit_8_int: "drop_bit 8 (cs::int) = cs div 256"
  by (simp add: drop_bit_eq_div)

lemma and_0xFF_int: "(cs::int) AND 0xFF = cs mod 256"
proof -
  have "cs AND mask 8 = cs mod 2 ^ 8"
    by (simp add: take_bit_eq_mod flip: take_bit_eq_mask)
  then show ?thesis by (simp add: mask_eq_exp_minus_1)
qed

lemma append_checksum_eq:
  assumes "0 \<le> sum_list t" and "sum_list t < 65536"
  shows "append_checksum t = Inr (t @ [sum_list t div 256, sum_list t mod 256])"
proof -
  from assms have "0 \<le> sum_list t div 256 \<and> sum_list t div 256 < 256"
    by (simp add: pos_imp_zdiv_nonneg_iff div_less_iff_less_mult)
  then show ?thesis
    by (simp add: append_checksum_def Let_def is_byte_def drop_bit_8_int and_0xFF_int)
qed

lemma check_checksum_append:
  "check_checksum (t @ [drop_bit 8 (sum_list t), sum_list t AND 0xFF]) = (Inr True, [])"
  by (simp add: check_checksum_def Let_def nth_append)

lemma append_checksum_checked:
  "append_checksum t = Inr t' \<Longrightarrow> check_checksum t' = (Inr True, [])"
  unfolding append_checksum_def Let_def
  by (auto simp only: check_checksum_append split: if_splits)

lemma construct_telegram_checked:
  "construct_telegram ty node obj data = Inr t \<Longrightarrow> check_checksum t = (Inr True, [])"
  unfolding construct_telegram_def Let_def
  by (auto split: if_splits dest: append_checksum_checked)

text \<open>
  The frame that \<^verbatim>\<open>_construct\<close> returns when every value stored into the bytearray is
  a byte. The start delimiter then bounds the length of the data, and the checksum fits
  in sixteen bits.
\<close>

lemma construct_telegram_eq:
  assumes ty: "0 \<le> ty" and node: "is_byte node" and obj: "is_byte obj"
    and data: "list_all is_byte data"
    and sd: "is_byte (0x30 + ty + (if data = [] then 0 else int (length data) - 1))"
  shows "construct_telegram ty node obj data =
           Inr ([0x30 + ty + (if data = [] then 0 else int (length data) - 1), node, obj]
                @ data @
                [(0x30 + ty + (if data = [] then 0 else int (length data) - 1)
                    + node + obj + sum_list data) div 256,
                 (0x30 + ty + (if data = [] then 0 else int (length data) - 1)
                    + node + obj + sum_list data) mod 256])"
proof (cases "data = []")
  case True
  with ty node obj sd show ?thesis
    by (simp add: construct_telegram_def append_checksum_eq is_byte_def ac_simps)
next
  case False
  from sum_list_bytes [OF data]
  have s: "0 \<le> sum_list data" "sum_list data \<le> 255 * int (length data)"
    by simp_all
  from False sd ty have len: "int (length data) \<le> 208"
    by (simp add: is_byte_def)
  have pos: "1 \<le> int (length data)"
    using False by (cases data) simp_all
  have b: "is_byte (0x30 + ty)"
    using sd ty False pos by (simp add: is_byte_def)
  let ?sd = "0x30 + ty + (int (length data) - 1)"
  have "0 \<le> ?sd + node + obj + sum_list data" "?sd + node + obj + sum_list data < 65536"
    using s len sd False node obj ty by (simp_all add: is_byte_def)
  then show ?thesis
    using False b node obj data sd
    by (simp add: construct_telegram_def Let_def append_checksum_eq ac_simps)
qed

text \<open>
  Claim C1. For each of the two frame types, every node id, object id and data of at most
  sixteen bytes (the longest field the length bits of the start delimiter can announce),
  \<^verbatim>\<open>_construct\<close> returns a telegram, \<^verbatim>\<open>_check_checksum\<close> accepts it, and its last
  two bytes are the high and the low byte of the sum of all bytes before them, a sum that
  fits in sixteen bits.
\<close>

theorem construct_telegram_passes_check_checksum:
  assumes "ty = PS_QUERY \<or> ty = PS_SEND" and "is_byte node" and "is_byte obj"
    and "list_all is_byte data" and "length data \<le> 16"
  shows "\<exists>t cs. construct_telegram ty node obj data = Inr t
           \<and> check_checksum t = (Inr True, [])
           \<and> 2 \<le> length t
           \<and> cs = sum_list (take (length t - 2) t) \<and> 0 \<le> cs \<and> cs < 2 ^ 16
           \<and> drop (length t - 2) t = [cs div 256, cs mod 256]"
proof -
  let ?sd = "0x30 + ty + (if data = [] then 0 else int (length data) - 1)"
  let ?cs = "?sd + node + obj + sum_list data"
  let ?t = "[?sd, node, obj] @ data @ [?cs div 256, ?cs mod 256]"
  have ty: "0 \<le> ty" and sd: "is_byte ?sd"
    using assms(1,5) by (auto simp: PS_QUERY_def PS_SEND_def is_byte_def)
  have eq: "construct_telegram ty node obj data = Inr ?t"
    by (rule construct_telegram_eq [OF ty assms(2,3,4) sd])
  have tk: "take (length ?t - 2) ?t = [?sd, node, obj] @ data"
    by simp
  have dr: "drop (length ?t - 2) ?t = [?cs div 256, ?cs mod 256]"
    by simp
  have sm: "sum_list (take (length ?t - 2) ?t) = ?cs"
    unfolding tk by simp
  from sum_list_bytes [OF assms(4)] assms(5)
  have "0 \<le> sum_list data" "sum_list data \<le> 4080"
    by simp_all
  with sd assms(2,3) have rng: "0 \<le> ?cs" "?cs < 2 ^ 16"
    by (simp_all add: is_byte_def)
  have len: "2 \<le> length ?t" by simp
  from construct_telegram_checked [OF eq] eq len sm rng dr show ?thesis
    by (intro exI [of _ ?t] exI [of _ ?cs]) (simp only: simp_thms)
qed

theorem construct_telegram_passes_check_checksum_witness:
  "(PS_SEND = PS_QUERY \<or> PS_SEND = PS_SEND) \<and> is_byte 0 \<and> is_byte 54
   \<and> list_all is_byte [0x10, 0x10] \<and> length [0x10, 0x10 :: int] \<le> 16
   \<and> (\<exists>t cs. construct_telegram PS_SEND 0 54 [0x10, 0x10] = Inr t
           \<and> check_checksum t = (Inr True, [])
           \<and> 2 \<le> length t
           \<and> cs = sum_list (take (length t - 2) t) \<and> 0 \<le> cs \<and> cs < 2 ^ 16
           \<and> drop (length t - 2) t = [cs div 256, cs mod 256])"
  using construct_telegram_passes_check_checksum [of PS_SEND 0 54 "[0x10, 0x10]"]
  by (simp add: is_byte_def)

text \<open>
  Claim C2. \<^verbatim>\<open>_construct\<close> lays the frame out as delimiter, node, object, data, high
  and low checksum byte, where the delimiter is \<open>0x30 + type\<close>, plus \<open>len(data) - 1\<close>
  when there is data; this holds whenever all these values are bytes. The query
  telegram for node 0 and object 2 without data is \<open>70 00 02 00 72\<close>.
\<close>

theorem construct_telegram_layout:
  assumes "0 \<le> ty" and "is_byte node" and "is_byte obj" and "list_all is_byte data"
    and "is_byte (0x30 + ty + (if data = [] then 0 else int (length data) - 1))"
  shows "construct_telegram ty node obj data =
           Inr ([0x30 + ty + (if data = [] then 0 else int (length data) - 1), node, obj]
                @ data @
                [(0x30 + ty + (if data = [] then 0 else int (length data) - 1)
                    + node + obj + sum_list data) div 256,
                 (0x30 + ty + (if data = [] then 0 else int (length data) - 1)
                    + node + obj + sum_list data) mod 256])
         \<and> construct_telegram PS_QUERY 0 2 [] = Inr [0x70, 0x00, 0x02, 0x00, 0x72]"
proof
  show "construct_telegram PS_QUERY 0 2 [] = Inr [0x70, 0x00, 0x02, 0x00, 0x72]"
    by (simp add: construct_telegram_def append_checksum_def PS_QUERY_def is_byte_def)
qed (rule construct_telegram_eq [OF assms])

theorem construct_telegram_layout_witness:
  "0 \<le> PS_SEND \<and> is_byte 0 \<and> is_byte 50 \<and> list_all is_byte [0x32, 0x00]
   \<and> is_byte (0x30 + PS_SEND + (int (length [0x32, 0x00 :: int]) - 1))
   \<and> construct_telegram PS_SEND 0 50 [0x32, 0x00] = Inr [0xF1, 0x00, 0x32, 0x32, 0x00, 0x01, 0x55]
   \<and> construct_telegram PS_QUERY 0 2 [] = Inr [0x70, 0x00, 0x02, 0x00, 0x72]"
  using construct_telegram_layout [of PS_SEND 0 50 "[0x32, 0x00]"]
  by (simp add: is_byte_def PS_SEND_def)

section \<open>Properties of \<^verbatim>\<open>_transfer\<close>\<close>

lemma ser_write_open:
  "port_open s \<Longrightarrow> ser_write telegram s = (Inr (), s\<lparr>written := written s @ [telegram]\<rparr>)"
  by (simp add: ser_write_def)

lemma ser_read_open:
  "port_open s \<Longrightarrow>
   ser_read 100 s =
     (Inr (receive s),
      s\<lparr>incoming := (case incoming s of [] \<Rightarrow> []
                      | r # rs \<Rightarrow> if length r \<le> 100 then rs else drop 100 r # rs)\<rparr>)"
  by (simp add: ser_read_def receive_def split: list.splits)

lemma print_fields [simp]:
  "verbose (print txt s) = verbose s"
  "u_nom (print txt s) = u_nom s"
  "i_nom (print txt s) = i_nom s"
  "triple (print txt s) = triple s"
  "port_open (print txt s) = port_open s"
  "written (print txt s) = written s"
  "incoming (print txt s) = incoming s"
  "stdout (print txt s) = stdout s @ txt"
  by (simp_all add: print_def)

lemma receive_cong [simp]:
  "receive (print txt s) = receive s"
  "receive (s\<lparr>written := w\<rparr>) = receive s"
  by (simp_all add: receive_def)


lemma transfer_on_long_answer:
  assumes "port_open s" and "construct_telegram ty node obj data = Inr telegram"
    and "\<not> length (receive s) < 5"
  shows "fst (transfer ty node obj data s) =
           (case fst (check_checksum (receive s)) of
              Inl e \<Rightarrow> Inl e
            | Inr _ \<Rightarrow> (case fst (check_error (receive s)) of
                          Inl e \<Rightarrow> Inl e
                        | Inr _ \<Rightarrow> Inr (receive s)))"
    and "written (snd (transfer ty node obj data s)) = written s @ [telegram]"
  using assms
  by (auto simp: transfer_def Let_def ser_write_open ser_read_open
        split: prod.splits sum.splits)

text \<open>
  Claim C5, as the code has it. A response with \<open>0xFF\<close> at index 2 and \<open>0x00\<close> at
  index 3 is a plain acknowledge: \<^verbatim>\<open>_check_error\<close> returns \<^verbatim>\<open>False\<close> and prints
  nothing. With \<open>0x09\<close> at index 3 it prints the line \<open>ERROR: access denied\<close> and the
  bytes of the answer and then raises \<^verbatim>\<open>SystemExit(1)\<close>: the error is reported on
  standard output and ends the process, it is not returned to the caller.
\<close>

theorem check_error_acknowledge_and_access_denied:
  assumes "4 \<le> length ans" and "ans ! 2 = 0xFF"
  shows "(ans ! 3 = 0x00 \<longrightarrow> check_error ans = (Inr False, []))
       \<and> (ans ! 3 = 0x09 \<longrightarrow>
            check_error ans =
              (Inl (SystemExit 1),
               ''ERROR: access denied'' @ newline @ ''answer: '' @ hex_dump ans))"
  using assms by (simp add: check_error_def error_text_def)

theorem check_error_acknowledge_and_access_denied_witness:
  "check_error [0x80, 0x00, 0xFF, 0x00, 0x01, 0x7F] = (Inr False, [])
   \<and> check_error [0x80, 0x00, 0xFF, 0x09, 0x01, 0x88] =
       (Inl (SystemExit 1),
        ''ERROR: access denied'' @ newline @ ''answer: ''
        @ hex_dump [0x80, 0x00, 0xFF, 0x09, 0x01, 0x88])"
  using check_error_acknowledge_and_access_denied [of "[0x80, 0x00, 0xFF, 0x00, 0x01, 0x7F]"]
    check_error_acknowledge_and_access_denied [of "[0x80, 0x00, 0xFF, 0x09, 0x01, 0x88]"]
  by simp

text \<open>
  The access-denied answer \<open>80 00 ff 09 01 88\<close> (its checksum is right) makes
  \<^verbatim>\<open>_check_error\<close> call \<^verbatim>\<open>sys.exit(1)\<close>, and what it raises is what the
  device-locked code \<open>0x0F\<close> raises as well: the kind of error is on standard output
  only.
\<close>

theorem check_error_access_denied_exits:
  "check_error [0x80, 0x00, 0xFF, 0x09, 0x01, 0x88] =
     (Inl (SystemExit 1),
      ''ERROR: access denied'' @ newline @ ''answer: 80 00 ff 09 01 88 '' @ newline)
   \<and> fst (check_error [0x80, 0x00, 0xFF, 0x0F, 0x01, 0x8E])
       = fst (check_error [0x80, 0x00, 0xFF, 0x09, 0x01, 0x88])"
  by (simp add: check_error_def error_text_def hex_dump_def fmt_02x_def digits.simps
        digit_char_def)




section \<open>Properties of the accessors and of the session\<close>

lemma transfer_state:
  assumes "port_open s" and "construct_telegram ty node obj data = Inr telegram"
  shows "written (snd (transfer ty node obj data s)) = written s @ [telegram]"
    and "port_open (snd (transfer ty node obj data s))"
    and "triple (snd (transfer ty node obj data s)) = triple s"
    and "verbose (snd (transfer ty node obj data s)) = verbose s"
    and "u_nom (snd (transfer ty node obj data s)) = u_nom s"
    and "i_nom (snd (transfer ty node obj data s)) = i_nom s"
    and "incoming (snd (transfer ty node obj data s)) =
           (case incoming s of [] \<Rightarrow> []
            | r # rs \<Rightarrow> if length r \<le> 100 then rs else drop 100 r # rs)"
  using assms
  by (auto simp: transfer_def Let_def ser_write_open ser_read_open
        split: prod.splits sum.splits)

lemma set_control_snd:
  "snd (set_control msk data node s) = snd (set_binary 54 msk data node s)"
  by (simp add: set_control_def split: prod.splits sum.splits)

lemma set_binary_snd:
  "snd (set_binary obj msk data node s) = snd (transfer PS_SEND node obj [msk, data] s)"
  by (simp add: set_binary_def split: prod.splits sum.splits)

lemma set_binary_written:
  assumes "port_open s" and "construct_telegram PS_SEND node obj [msk, data] = Inr telegram"
  shows "written (snd (set_binary obj msk data node s)) = written s @ [telegram]"
    and "port_open (snd (set_binary obj msk data node s))"
    and "triple (snd (set_binary obj msk data node s)) = triple s"
    and "incoming (snd (set_binary obj msk data node s)) =
           (case incoming s of [] \<Rightarrow> []
            | r # rs \<Rightarrow> if length r \<le> 100 then rs else drop 100 r # rs)"
  unfolding set_binary_snd
  using transfer_state [OF assms] by simp_all

lemma construct_control:
  assumes "is_byte node" and "d = 0x00 \<or> d = 0x01 \<or> d = 0x10" and "m = 0x01 \<or> m = 0x10"
  shows "construct_telegram PS_SEND node 54 [m, d] =
           Inr [0xF1, node, 54, m, d, (0x127 + node + m + d) div 256,
                (0x127 + node + m + d) mod 256]"
proof -
  have "construct_telegram PS_SEND node 54 [m, d] =
       Inr ([0x30 + PS_SEND + (if [m, d] = [] then 0 else int (length [m, d]) - 1), node, 54]
                @ [m, d] @
                [(0x30 + PS_SEND + (if [m, d] = [] then 0 else int (length [m, d]) - 1)
                    + node + 54 + sum_list [m, d]) div 256,
                 (0x30 + PS_SEND + (if [m, d] = [] then 0 else int (length [m, d]) - 1)
                    + node + 54 + sum_list [m, d]) mod 256])"
    using assms by (intro construct_telegram_eq) (auto simp: is_byte_def PS_SEND_def)
  then show ?thesis by (simp add: PS_SEND_def ac_simps)
qed

lemma transfer_Inr_checked:
  assumes "fst (transfer ty node obj data s) = Inr ans"
  shows "5 \<le> length ans" and "\<exists>b. fst (check_error ans) = Inr b"
  using assms
  by (auto simp: transfer_def Let_def split: sum.splits prod.splits if_splits)

text \<open>
  An answer that \<^verbatim>\<open>_transfer\<close> accepts and whose byte 2 is the marker \<open>0xFF\<close> is an
  acknowledge: its byte 3 is \<open>0x00\<close>. That byte is the first one of the payload, where
  \<^verbatim>\<open>_set_control\<close> looks for the marker, so the result is never \<^verbatim>\<open>True\<close>.
\<close>

lemma set_control_acknowledge_not_True:
  assumes "fst (transfer PS_SEND node 54 [msk, data] s) = Inr ans" and "ans ! 2 = 0xFF"
  shows "fst (set_control msk data node s) \<noteq> Inr True"
proof -
  from transfer_Inr_checked [OF assms(1)] obtain b
    where len: "5 \<le> length ans" and "fst (check_error ans) = Inr b"
    by blast
  with assms(2) have a3: "ans ! 3 = 0x00"
    by (auto simp: check_error_def split: if_splits)
  have "payload ans = [] \<or> payload ans ! 0 = 0x00"
    using len a3 by (cases "length ans = 5") (simp_all add: payload_def)
  moreover obtain s' where "transfer PS_SEND node 54 [msk, data] s = (Inr ans, s')"
    using assms(1) by (cases "transfer PS_SEND node 54 [msk, data] s") simp
  ultimately show ?thesis
    by (auto simp: set_control_def set_binary_def)
qed

text \<open>
  Claim C8 at a concrete input. The device acknowledges a write to object 54 with the
  answer \<open>80 00 ff 00 01 7f\<close>, which \<^verbatim>\<open>_check_error\<close> accepts as an acknowledge. The
  one \<^verbatim>\<open>_set_binary\<close> call of \<^verbatim>\<open>set_remote\<close> and of \<^verbatim>\<open>set_output_on\<close> returns the
  payload \<open>00\<close> of that answer, and both return \<^verbatim>\<open>False\<close>.
\<close>

theorem set_control_rejects_acknowledge:
  "check_error [0x80, 0x00, 0xFF, 0x00, 0x01, 0x7F] = (Inr False, [])
   \<and> fst (transfer PS_SEND 0 54 [0x10, 0x10] (example_session [[0x80, 0x00, 0xFF, 0x00, 0x01, 0x7F]]))
       = Inr [0x80, 0x00, 0xFF, 0x00, 0x01, 0x7F]
   \<and> fst (set_binary 54 0x10 0x10 0 (example_session [[0x80, 0x00, 0xFF, 0x00, 0x01, 0x7F]]))
       = Inr [0x00]
   \<and> fst (set_remote True 0 (example_session [[0x80, 0x00, 0xFF, 0x00, 0x01, 0x7F]]))
       = Inr False
   \<and> fst (set_output_on True 0 (example_session [[0x80, 0x00, 0xFF, 0x00, 0x01, 0x7F]]))
       = Inr False"
  by (simp add: run_defs set_output_on_def)

subsection \<open>The remote-control scope\<close>

lemma set_remote_state:
  assumes "port_open s" and "is_byte node"
  shows "written (snd (set_remote remote node s)) =
           written s @ [[0xF1, node, 54, 0x10, (if remote then 0x10 else 0x00),
                (0x137 + node + (if remote then 0x10 else 0x00)) div 256,
                (0x137 + node + (if remote then 0x10 else 0x00)) mod 256]]"
    and "port_open (snd (set_remote remote node s))"
    and "triple (snd (set_remote remote node s)) = triple s"
proof -
  have r: "set_remote remote node s = set_control 0x10 (if remote then 0x10 else 0x00) node s"
    by (simp add: set_remote_def)
  have cr: "construct_telegram PS_SEND node 54 [0x10, if remote then 0x10 else 0x00] =
      Inr [0xF1, node, 54, 0x10, (if remote then 0x10 else 0x00),
                (0x137 + node + (if remote then 0x10 else 0x00)) div 256,
                (0x137 + node + (if remote then 0x10 else 0x00)) mod 256]"
    using construct_control [OF assms(2), of "if remote then 0x10 else 0x00" "0x10"]
    by (simp add: ac_simps)
  show "written (snd (set_remote remote node s)) =
           written s @ [[0xF1, node, 54, 0x10, (if remote then 0x10 else 0x00),
                (0x137 + node + (if remote then 0x10 else 0x00)) div 256,
                (0x137 + node + (if remote then 0x10 else 0x00)) mod 256]]"
    unfolding r set_control_snd by (rule set_binary_written(1) [OF assms(1) cr])
  show "port_open (snd (set_remote remote node s))"
    unfolding r set_control_snd by (rule set_binary_written(2) [OF assms(1) cr])
  show "triple (snd (set_remote remote node s)) = triple s"
    unfolding r set_control_snd by (rule set_binary_written(3) [OF assms(1) cr])
qed

lemma exit_scope_cases:
  "exit_scope s =
     (case fst (set_remote False 0 s) of
        Inl e \<Rightarrow> (Inl e, snd (set_remote False 0 s))
      | Inr _ \<Rightarrow>
          if triple (snd (set_remote False 0 s)) then
            (case fst (set_remote False 1 (snd (set_remote False 0 s))) of
               Inl e \<Rightarrow> (Inl e, snd (set_remote False 1 (snd (set_remote False 0 s))))
             | Inr _ \<Rightarrow>
                 (Inr (), snd (set_remote False 1 (snd (set_remote False 0 s)))
                            \<lparr>port_open := False\<rparr>))
          else (Inr (), snd (set_remote False 0 s)\<lparr>port_open := False\<rparr>))"
  by (auto simp: exit_scope_def close_def split: prod.splits sum.splits)

text \<open>
  Claim C9, as the code has it. Once the scope has been entered, \<^verbatim>\<open>__exit__\<close> runs
  after the body however the body ended (value, exception, \<^verbatim>\<open>sys.exit\<close>, keyboard
  interrupt), and on an open port its first action writes the telegram that clears the
  remote bit of node 0. On a triple device the telegram for node 1 follows exactly when
  the call for node 0 returned normally. The port is closed exactly when every call of
  \<^verbatim>\<open>__exit__\<close> returned normally; when one of them fails, its error replaces the outcome
  of the body, nothing more is written and the port stays open.
\<close>

theorem exit_scope_releases_node_0:
  assumes "enter s = (Inr x, s1)" and "body s1 = (r, s2)" and "port_open s2"
  shows "snd (with_ps2000 body s) = snd (exit_scope s2)
       \<and> fst (with_ps2000 body s) = (case fst (exit_scope s2) of Inl e \<Rightarrow> Inl e | Inr _ \<Rightarrow> r)
       \<and> written (snd (exit_scope s2)) =
           written s2 @ [[0xF1, 0x00, 54, 0x10, 0x00, 0x01, 0x37]]
           @ (if triple s2 \<and> (\<exists>b. fst (set_remote False 0 s2) = Inr b)
              then [[0xF1, 0x01, 54, 0x10, 0x00, 0x01, 0x38]] else [])
       \<and> (port_open (snd (exit_scope s2)) \<longleftrightarrow> (\<exists>e. fst (exit_scope s2) = Inl e))
       \<and> ((\<exists>e. fst (exit_scope s2) = Inl e) \<longleftrightarrow>
            (\<exists>e. fst (set_remote False 0 s2) = Inl e)
            \<or> triple s2 \<and> (\<exists>e. fst (set_remote False 1 (snd (set_remote False 0 s2))) = Inl e))"
proof -
  let ?s3 = "snd (set_remote False 0 s2)"
  let ?s4 = "snd (set_remote False 1 ?s3)"
  have b0: "is_byte 0" and b1: "is_byte 1" by (simp_all add: is_byte_def)
  note st0 = set_remote_state [OF assms(3) b0, of False]
  note st1 = set_remote_state [OF st0(2) b1, of False]
  have w0: "written ?s3 = written s2 @ [[0xF1, 0x00, 54, 0x10, 0x00, 0x01, 0x37]]"
    using st0(1) by simp
  have w1: "written ?s4 = written ?s3 @ [[0xF1, 0x01, 54, 0x10, 0x00, 0x01, 0x38]]"
    using st1(1) by simp
  have a: "snd (with_ps2000 body s) = snd (exit_scope s2)"
    and b: "fst (with_ps2000 body s) = (case fst (exit_scope s2) of Inl e \<Rightarrow> Inl e | Inr _ \<Rightarrow> r)"
    using assms(1,2) by (simp_all add: with_ps2000_def split: prod.splits sum.splits)
  have c: "written (snd (exit_scope s2)) =
           written s2 @ [[0xF1, 0x00, 54, 0x10, 0x00, 0x01, 0x37]]
           @ (if triple s2 \<and> (\<exists>b. fst (set_remote False 0 s2) = Inr b)
              then [[0xF1, 0x01, 54, 0x10, 0x00, 0x01, 0x38]] else [])"
    unfolding exit_scope_cases using w0 w1 st0(3)
    by (auto split: sum.splits)
  have d: "port_open (snd (exit_scope s2)) \<longleftrightarrow> (\<exists>e. fst (exit_scope s2) = Inl e)"
    unfolding exit_scope_cases using st0(2) st1(2)
    by (auto split: sum.splits)
  have e: "(\<exists>e. fst (exit_scope s2) = Inl e) \<longleftrightarrow>
            (\<exists>e. fst (set_remote False 0 s2) = Inl e)
            \<or> triple s2 \<and> (\<exists>e. fst (set_remote False 1 ?s3) = Inl e)"
    unfolding exit_scope_cases using st0(3)
    by (auto split: sum.splits)
  from a b c d e show ?thesis by (simp only: simp_thms)
qed

theorem exit_scope_releases_node_0_witness:
  "enter (example_session [[0x80, 0x00, 0xFF, 0x00, 0x01, 0x7F], [0x80, 0x00, 0xFF, 0x00, 0x01, 0x7F]])
     = (Inr (), (example_session [[0x80, 0x00, 0xFF, 0x00, 0x01, 0x7F]])
                  \<lparr>written := [[0xF1, 0x00, 54, 0x10, 0x10, 0x01, 0x47]]\<rparr>)
   \<and> port_open ((example_session [[0x80, 0x00, 0xFF, 0x00, 0x01, 0x7F]])
                  \<lparr>written := [[0xF1, 0x00, 54, 0x10, 0x10, 0x01, 0x47]]\<rparr>)
   \<and> written (snd (with_ps2000 (\<lambda>s. (Inl KeyboardInterrupt :: py_error + unit, s))
         (example_session [[0x80, 0x00, 0xFF, 0x00, 0x01, 0x7F], [0x80, 0x00, 0xFF, 0x00, 0x01, 0x7F]])))
       = [[0xF1, 0x00, 54, 0x10, 0x10, 0x01, 0x47], [0xF1, 0x00, 54, 0x10, 0x00, 0x01, 0x37]]
   \<and> \<not> port_open (snd (with_ps2000 (\<lambda>s. (Inl KeyboardInterrupt :: py_error + unit, s))
         (example_session [[0x80, 0x00, 0xFF, 0x00, 0x01, 0x7F], [0x80, 0x00, 0xFF, 0x00, 0x01, 0x7F]])))
   \<and> fst (with_ps2000 (\<lambda>s. (Inl KeyboardInterrupt :: py_error + unit, s))
         (example_session [[0x80, 0x00, 0xFF, 0x00, 0x01, 0x7F], [0x80, 0x00, 0xFF, 0x00, 0x01, 0x7F]]))
       = Inl KeyboardInterrupt"
  using exit_scope_releases_node_0
    [of "example_session [[0x80, 0x00, 0xFF, 0x00, 0x01, 0x7F], [0x80, 0x00, 0xFF, 0x00, 0x01, 0x7F]]"
        "()"
        "(example_session [[0x80, 0x00, 0xFF, 0x00, 0x01, 0x7F]])
                  \<lparr>written := [[0xF1, 0x00, 54, 0x10, 0x10, 0x01, 0x47]]\<rparr>"
        "\<lambda>s. (Inl KeyboardInterrupt :: py_error + unit, s)"
        "Inl KeyboardInterrupt"
        "(example_session [[0x80, 0x00, 0xFF, 0x00, 0x01, 0x7F]])
                  \<lparr>written := [[0xF1, 0x00, 54, 0x10, 0x10, 0x01, 0x47]]\<rparr>"]
  by (simp add: run_defs)

text \<open>
  A triple device that stops answering inside the scope: the query of the voltage
  setpoint fails on the empty answer, \<^verbatim>\<open>__exit__\<close> writes the release for node 0 and
  fails in the same way, so node 1 is never released and the port is not closed.
\<close>

theorem exit_scope_skips_node_1:
  "written (snd (with_ps2000 (get_voltage_setpoint 0)
      ((example_session [[0x80, 0x00, 0xFF, 0x00, 0x01, 0x7F], [0x80, 0x01, 0xFF, 0x00, 0x01, 0x80]])
         \<lparr>triple := True\<rparr>)))
     = [[0xF1, 0x00, 54, 0x10, 0x10, 0x01, 0x47], [0xF1, 0x01, 54, 0x10, 0x10, 0x01, 0x48],
        [0x70, 0x00, 50, 0x00, 0xA2], [0xF1, 0x00, 54, 0x10, 0x00, 0x01, 0x37]]
   \<and> port_open (snd (with_ps2000 (get_voltage_setpoint 0)
      ((example_session [[0x80, 0x00, 0xFF, 0x00, 0x01, 0x7F], [0x80, 0x01, 0xFF, 0x00, 0x01, 0x80]])
         \<lparr>triple := True\<rparr>)))
   \<and> fst (with_ps2000 (get_voltage_setpoint 0)
      ((example_session [[0x80, 0x00, 0xFF, 0x00, 0x01, 0x7F], [0x80, 0x01, 0xFF, 0x00, 0x01, 0x80]])
         \<lparr>triple := True\<rparr>))
     = Inl (SystemExit 1)"
  by (simp add: run_defs get_voltage_setpoint_def)

subsection \<open>The scaled getters\<close>

lemma get_integer_snd:
  "snd (get_integer obj node s) = snd (transfer PS_QUERY node obj [] s)"
  by (simp add: get_integer_def split: prod.splits sum.splits)

lemma construct_query:
  assumes "is_byte node" and "is_byte obj"
  shows "construct_telegram PS_QUERY node obj [] =
           Inr [0x70, node, obj, (0x70 + node + obj) div 256, (0x70 + node + obj) mod 256]"
  using construct_telegram_eq [of PS_QUERY node obj "[]"] assms
  by (simp add: PS_QUERY_def is_byte_def)

lemma get_integer_written:
  assumes "port_open s" and "is_byte node" and "is_byte obj"
  shows "written (snd (get_integer obj node s)) =
           written s @ [[0x70, node, obj, (0x70 + node + obj) div 256,
                         (0x70 + node + obj) mod 256]]"
  unfolding get_integer_snd
  by (rule transfer_state(1) [OF assms(1) construct_query [OF assms(2,3)]])

lemma scaled_getters_snd:
  "snd (get_OVP_threshold node s) = snd (get_integer 38 0 s)"
  "snd (get_OCP_threshold node s) = snd (get_integer 39 node s)"
  "snd (get_voltage_setpoint node s) = snd (get_integer 50 node s)"
  "snd (get_current_setpoint node s) = snd (get_integer 51 node s)"
  by (simp_all add: get_OVP_threshold_def get_OCP_threshold_def get_voltage_setpoint_def
        get_current_setpoint_def split: prod.splits sum.splits)

text \<open>
  Claim C10. \<^verbatim>\<open>get_OVP_threshold\<close> does not use its node argument: for every node it
  behaves as for node 0, and the one telegram it writes on an open port is the query of
  object 38 on node 0. \<^verbatim>\<open>get_OCP_threshold\<close>, \<^verbatim>\<open>get_voltage_setpoint\<close> and
  \<^verbatim>\<open>get_current_setpoint\<close> put the node they are given into the telegram.
\<close>

theorem get_OVP_threshold_ignores_node:
  "get_OVP_threshold node s = get_OVP_threshold 0 s
   \<and> (port_open s \<longrightarrow>
        written (snd (get_OVP_threshold node s)) = written s @ [[0x70, 0x00, 38, 0x00, 0x96]])
   \<and> (port_open s \<and> is_byte node \<longrightarrow>
        written (snd (get_OCP_threshold node s))
          = written s @ [[0x70, node, 39, (0x97 + node) div 256, (0x97 + node) mod 256]]
        \<and> written (snd (get_voltage_setpoint node s))
          = written s @ [[0x70, node, 50, (0xA2 + node) div 256, (0xA2 + node) mod 256]]
        \<and> written (snd (get_current_setpoint node s))
          = written s @ [[0x70, node, 51, (0xA3 + node) div 256, (0xA3 + node) mod 256]])"
proof -
  have b: "is_byte 0" "is_byte 38" "is_byte 39" "is_byte 50" "is_byte 51"
    by (simp_all add: is_byte_def)
  have "get_OVP_threshold node s = get_OVP_threshold 0 s"
    by (simp add: get_OVP_threshold_def)
  moreover have "written (snd (get_OVP_threshold node s))
           = written s @ [[0x70, 0x00, 38, 0x00, 0x96]]" if "port_open s"
    unfolding scaled_getters_snd using get_integer_written [OF that b(1) b(2)] by simp
  moreover have "written (snd (get_OCP_threshold node s))
           = written s @ [[0x70, node, 39, (0x97 + node) div 256, (0x97 + node) mod 256]]"
    if "port_open s" and "is_byte node"
    unfolding scaled_getters_snd using get_integer_written [OF that b(3)]
    by (simp add: ac_simps)
  moreover have "written (snd (get_voltage_setpoint node s))
           = written s @ [[0x70, node, 50, (0xA2 + node) div 256, (0xA2 + node) mod 256]]"
    if "port_open s" and "is_byte node"
    unfolding scaled_getters_snd using get_integer_written [OF that b(4)]
    by (simp add: ac_simps)
  moreover have "written (snd (get_current_setpoint node s))
           = written s @ [[0x70, node, 51, (0xA3 + node) div 256, (0xA3 + node) mod 256]]"
    if "port_open s" and "is_byte node"
    unfolding scaled_getters_snd using get_integer_written [OF that b(5)]
    by (simp add: ac_simps)
  ultimately show ?thesis by blast
qed

theorem get_OVP_threshold_ignores_node_witness:
  "port_open (example_session []) \<and> is_byte 1
   \<and> get_OVP_threshold 1 (example_session []) = get_OVP_threshold 0 (example_session [])
   \<and> written (snd (get_OVP_threshold 1 (example_session []))) = [[0x70, 0x00, 38, 0x00, 0x96]]
   \<and> written (snd (get_OCP_threshold 1 (example_session []))) = [[0x70, 0x01, 39, 0x00, 0x98]]
   \<and> written (snd (get_voltage_setpoint 1 (example_session []))) = [[0x70, 0x01, 50, 0x00, 0xA3]]
   \<and> written (snd (get_current_setpoint 1 (example_session []))) = [[0x70, 0x01, 51, 0x00, 0xA4]]"
  using get_OVP_threshold_ignores_node [where s = "example_session []" and node = 1]
    get_OVP_threshold_ignores_node [where s = "example_session []" and node = 0]
  by (simp add: example_session_def is_byte_def)

section \<open>Properties of the scaling\<close>

lemma py_round_bound: "\<bar>of_int (py_round x) - x\<bar> \<le> 1 / 2"
proof -
  have "of_int \<lfloor>x\<rfloor> \<le> x" "x < of_int \<lfloor>x\<rfloor> + 1" by linarith+
  then show ?thesis by (auto simp: py_round_def Let_def)
qed

lemma py_round_unique:
  assumes "\<bar>x - of_int n\<bar> < 1 / 2"
  shows "py_round x = n"
proof -
  have "\<bar>of_int (py_round x) - x\<bar> \<le> 1 / 2" by (rule py_round_bound)
  with assms have "\<bar>(of_int (py_round x) :: real) - of_int n\<bar> < 1" by linarith
  then have "\<bar>of_int (py_round x - n) :: real\<bar> < 1" by simp
  then have "\<bar>py_round x - n\<bar> < 1" by linarith
  then show ?thesis by simp
qed

lemma py_round_of_int: "py_round (of_int n) = n"
  by (rule py_round_unique) simp

text \<open>
  Within the range of the normal numbers the rounding returns a finite float, and its
  relative error is at most 2 to the power -53.
\<close>

lemma round_binary64_normal:
  assumes lo: "2 powr (- 1022) \<le> \<bar>x\<bar>" and hi: "\<bar>x\<bar> < 2 powr 1023"
  shows "\<exists>y. round_binary64 x = Finite y \<and> \<bar>y - x\<bar> \<le> \<bar>x\<bar> / 2 ^ 53"
proof -
  have pos: "0 < \<bar>x\<bar>"
    using lo by (rule less_le_trans [rotated]) simp
  then have nz: "x \<noteq> 0" by simp
  define k where "k = \<lfloor>log 2 \<bar>x\<bar>\<rfloor>"
  have "- 1022 \<le> log 2 \<bar>x\<bar>"
    using lo pos by (subst le_log_iff) simp_all
  then have k: "- 1022 \<le> k"
    unfolding k_def by (simp add: le_floor_iff)
  define p :: real where "p = 2 powr of_int (k - 52)"
  define y where "y = of_int (py_round (x / p)) * p"
  have p: "0 < p" by (simp add: p_def)
  have "\<bar>of_int (py_round (x / p)) - x / p\<bar> \<le> 1 / 2" by (rule py_round_bound)
  then have "\<bar>of_int (py_round (x / p)) - x / p\<bar> * p \<le> 1 / 2 * p"
    using p by (intro mult_right_mono) simp_all
  moreover have "\<bar>of_int (py_round (x / p)) - x / p\<bar> * p = \<bar>y - x\<bar>"
  proof -
    have "\<bar>of_int (py_round (x / p)) - x / p\<bar> * p
            = \<bar>(of_int (py_round (x / p)) - x / p) * p\<bar>"
      using p by (simp add: abs_mult)
    also have "(of_int (py_round (x / p)) - x / p) * p = y - x"
      using p by (simp add: y_def algebra_simps)
    finally show ?thesis .
  qed
  ultimately have 1: "\<bar>y - x\<bar> \<le> p / 2" by simp
  have "2 powr of_int k \<le> 2 powr log 2 \<bar>x\<bar>"
    unfolding k_def by (intro powr_mono) simp_all
  also have "\<dots> = \<bar>x\<bar>" using nz by simp
  finally have 2: "2 powr of_int k \<le> \<bar>x\<bar>" .
  have "p = 2 powr of_int k / 2 ^ 52"
    by (simp add: p_def powr_diff)
  with 2 have "p / 2 \<le> \<bar>x\<bar> / 2 ^ 53" by simp
  with 1 have err: "\<bar>y - x\<bar> \<le> \<bar>x\<bar> / 2 ^ 53" by linarith
  have "\<bar>x\<bar> / 2 ^ 53 \<le> \<bar>x\<bar>" using pos by (simp add: field_simps)
  with err have "\<bar>y\<bar> \<le> 2 * \<bar>x\<bar>" by linarith
  also have "\<dots> < 2 * 2 powr 1023" using hi by simp
  also have "\<dots> = 2 powr 1024"
    using powr_add [of "2::real" 1 1023] by simp
  finally have fin: "\<not> 2 powr 1024 \<le> \<bar>y\<bar>" by simp
  have "round_binary64 x = Finite y"
    using nz k fin by (simp add: round_binary64_def Let_def k_def [symmetric] max_absorb1 y_def p_def)
  with err show ?thesis by blast
qed

lemma round_binary64_pos:
  assumes "2 powr (- 1022) \<le> x" and "x < 2 powr 1023"
  shows "\<exists>y. round_binary64 x = Finite y \<and> \<bar>y - x\<bar> \<le> x / 2 ^ 53"
proof -
  have "0 < x" using assms(1) by (rule less_le_trans [rotated]) simp
  then have "\<bar>x\<bar> = x" by simp
  with round_binary64_normal [of x] assms show ?thesis by simp
qed

lemma powr_minus_nat: "(2::real) powr (- real n) = 1 / 2 ^ n"
  by (simp add: powr_minus_divide powr_realpow)

lemma powr_plus_nat: "(2::real) powr (real n) = 2 ^ n"
  by (simp add: powr_realpow)

text \<open>
  Every exact result on the way from a raw value to a physical value and back is, up to
  a factor between 1/8 and 8 times 25600, the nominal value or its 25600th part: for a
  nominal value in the range of the positive finite 32-bit floats that is a normal
  binary64 number.
\<close>

lemma scaled_in_normal_range:
  assumes t: "1 / 8 \<le> (t::real)" "t \<le> 204800"
    and nom: "1 / 2 ^ 149 \<le> (nom::real)" "nom < 2 ^ 128"
  shows "2 powr (- 1022) \<le> t * nom / 25600" and "t * nom < 2 powr 1023"
proof -
  have npos: "0 < nom" using nom(1) by (rule less_le_trans [rotated]) simp
  have tpos: "0 < t" using t(1) by simp
  have "(2::real) powr (- 1022) \<le> 2 powr (- 167)"
    by (intro powr_mono) simp_all
  also have "\<dots> = 1 / 2 ^ 167"
    using powr_minus_nat [of 167] by simp
  also have "\<dots> \<le> (1 / 8) * (1 / 2 ^ 149) / 25600"
    by simp
  also have "\<dots> \<le> t * nom / 25600"
    using t(1) nom(1) by (intro divide_right_mono mult_mono) simp_all
  finally show "2 powr (- 1022) \<le> t * nom / 25600" .
  have "t * nom \<le> 204800 * nom"
    using t(2) npos by (intro mult_right_mono) simp_all
  also have "\<dots> < 204800 * 2 ^ 128"
    using nom(2) by simp
  also have "\<dots> \<le> (2::real) ^ 146"
    by simp
  also have "\<dots> = 2 powr 146"
    using powr_plus_nat [of 146] by simp
  also have "\<dots> \<le> 2 powr 1023"
    by (intro powr_mono) simp_all
  finally show "t * nom < 2 powr 1023" .
qed

lemma rel_err_div:
  assumes "(0::real) < s" and "\<bar>y - x\<bar> \<le> x / 2 ^ 53"
  shows "\<bar>y / s - x / s\<bar> \<le> (x / s) / 2 ^ 53"
proof -
  have "\<bar>y / s - x / s\<bar> = \<bar>y - x\<bar> / s"
    using assms(1) by (simp add: abs_divide flip: diff_divide_distrib)
  also have "\<dots> \<le> (x / 2 ^ 53) / s"
    using assms by (intro divide_right_mono) simp_all
  finally show ?thesis by simp
qed

lemma rel_err_mult:
  assumes "(0::real) < s" and "\<bar>y - x\<bar> \<le> x / 2 ^ 53"
  shows "\<bar>y * s - x * s\<bar> \<le> (x * s) / 2 ^ 53"
  using rel_err_div [of "1 / s" y x] assms by simp

text \<open>Integers below 2 to the power 53 in magnitude are floats.\<close>

lemma round_binary64_of_int:
  assumes "\<bar>n\<bar> < 2 ^ 53"
  shows "round_binary64 (of_int n) = Finite (of_int n)"
proof (cases "n = 0")
  case True
  then show ?thesis by (simp add: round_binary64_def)
next
  case False
  define x :: real where "x = of_int n"
  define k where "k = \<lfloor>log 2 \<bar>x\<bar>\<rfloor>"
  have x1: "1 \<le> \<bar>x\<bar>" using False by (simp add: x_def)
  have x2: "\<bar>x\<bar> < 2 ^ 53"
  proof -
    have "\<bar>x\<bar> = of_int \<bar>n\<bar>" by (simp add: x_def)
    also have "\<dots> < of_int (2 ^ 53)" using assms by (simp only: of_int_less_iff)
    finally show ?thesis by simp
  qed
  have "0 \<le> log 2 \<bar>x\<bar>" using x1 by simp
  then have k0: "0 \<le> k" by (simp add: k_def)
  have "\<bar>x\<bar> < 2 powr 53" using x2 by simp
  then have "log 2 \<bar>x\<bar> < 53" using x1 by (subst log_less_iff) simp_all
  then have k52: "k \<le> 52" unfolding k_def by linarith
  define m where "m = nat (52 - k)"
  have e: "(of_int (k - 52) :: real) = - real m" using k52 by (simp add: m_def)
  define q :: real where "q = 2 powr of_int (k - 52)"
  have q: "q = 1 / 2 ^ m"
    unfolding q_def e by (simp add: powr_minus powr_realpow divide_inverse)
  have nz: "x \<noteq> 0" using x1 by auto
  have "of_int (py_round (x / q)) * q = of_int (py_round (of_int (n * 2 ^ m))) * q"
    by (simp add: q x_def)
  also have "\<dots> = of_int (n * 2 ^ m) * q"
    by (simp only: py_round_of_int)
  also have "\<dots> = x"
    by (simp add: q x_def)
  finally have y: "of_int (py_round (x / q)) * q = x" .
  have "\<bar>x\<bar> < 2 powr 53" using x2 by simp
  also have "(2::real) powr 53 \<le> 2 powr 1024" by (intro powr_mono) simp_all
  finally have fin: "\<not> 2 powr 1024 \<le> \<bar>x\<bar>" by simp
  have "round_binary64 x = Finite x"
    using nz k0 fin y
    by (simp add: round_binary64_def Let_def k_def [symmetric] max_absorb1 q_def)
  then show ?thesis by (simp only: x_def)
qed

lemma float_of_int_exact: "\<bar>n\<bar> < 2 ^ 53 \<Longrightarrow> float_of_int n = Inr (Finite (of_int n))"
  by (simp add: float_of_int_def round_binary64_of_int)

text \<open>
  Four rounded operations lie between a raw value and the argument of \<^verbatim>\<open>round\<close>.
  None of them leaves the range of the normal numbers, so that argument differs from the
  raw value by less than 15 times 25600 divided by 2 to the power 53, far less than one
  half.
\<close>

lemma physical_to_raw_inverse:
  assumes nom: "1 / 2 ^ 149 \<le> nom" "nom < 2 ^ 128" and lo: "0 \<le> raw" and hi: "raw \<le> 25600"
  shows "\<exists>p. raw_to_physical (Finite nom) raw = Inr (Finite p)
           \<and> physical_to_raw (Finite p) (Finite nom) = Inr raw"
proof (cases "raw = 0")
  case True
  have npos: "0 < nom" using nom(1) by (rule less_le_trans [rotated]) simp
  have "raw_to_physical (Finite nom) raw = Inr (Finite 0)"
    using True by (simp add: raw_to_physical_def float_of_int_def round_binary64_def)
  moreover have "physical_to_raw (Finite 0) (Finite nom) = Inr raw"
    using True npos py_round_of_int [of 0]
    by (simp add: physical_to_raw_def round_binary64_def)
  ultimately show ?thesis by blast
next
  case False
  define r :: real where "r = of_int raw"
  have r: "1 \<le> r" "r \<le> 25600" using lo hi False by (simp_all add: r_def)
  have npos: "0 < nom" using nom(1) by (rule less_le_trans [rotated]) simp
  have N: "(2::real) ^ 53 = 9007199254740992" by simp
  have conv: "float_of_int raw = Inr (Finite r)"
    unfolding r_def using lo hi by (intro float_of_int_exact) simp
  \<comment> \<open>\<^verbatim>\<open>nom * v\<close>\<close>
  have lr: "2 powr (- 1022) \<le> r * nom / 25600" and ur: "r * nom < 2 powr 1023"
    using r by (intro scaled_in_normal_range nom; simp)+
  have mr: "r * nom / 25600 \<le> r * nom" using r npos by (simp add: field_simps)
  have "2 powr (- 1022) \<le> nom * r" "nom * r < 2 powr 1023"
    using order_trans [OF lr mr] ur by (simp_all add: mult.commute)
  from round_binary64_pos [OF this] obtain a
    where a: "round_binary64 (nom * r) = Finite a" and ea: "\<bar>a - nom * r\<bar> \<le> nom * r / 2 ^ 53"
    by blast
  define x1 where "x1 = a / nom"
  have "\<bar>a / nom - nom * r / nom\<bar> \<le> (nom * r / nom) / 2 ^ 53"
    by (rule rel_err_div [OF npos ea])
  then have A: "\<bar>x1 - r\<bar> \<le> r / 9007199254740992"
    using npos by (simp add: x1_def)
  have bA: "r / 2 \<le> x1" "x1 \<le> 2 * r" using A r by linarith+
  have a_eq: "a = x1 * nom" using npos by (simp add: x1_def)
  \<comment> \<open>\<^verbatim>\<open>/ 25600\<close>\<close>
  have lx1: "2 powr (- 1022) \<le> x1 * nom / 25600" and ux1: "x1 * nom < 2 powr 1023"
    using bA r by (intro scaled_in_normal_range nom; simp)+
  have mx1: "x1 * nom / 25600 \<le> x1 * nom" using bA r npos by (simp add: field_simps)
  have "2 powr (- 1022) \<le> a / 25600" "a / 25600 < 2 powr 1023"
    unfolding a_eq using lx1 ux1 mx1 by linarith+
  from round_binary64_pos [OF this] obtain b
    where b: "round_binary64 (a / 25600) = Finite b"
      and eb: "\<bar>b - a / 25600\<bar> \<le> a / 25600 / 2 ^ 53"
    by blast
  define x2 where "x2 = b * 25600 / nom"
  have "\<bar>b * (25600 / nom) - a / 25600 * (25600 / nom)\<bar> \<le> (a / 25600 * (25600 / nom)) / 2 ^ 53"
    using npos by (intro rel_err_mult [OF _ eb]) simp
  then have B: "\<bar>x2 - x1\<bar> \<le> x1 / 9007199254740992"
    by (simp add: x2_def x1_def)
  have bB: "r / 4 \<le> x2" "x2 \<le> 4 * r" using B bA r by linarith+
  have b_eq: "b * 25600 = x2 * nom" using npos by (simp add: x2_def)
  have phys: "raw_to_physical (Finite nom) raw = Inr (Finite b)"
    by (simp add: raw_to_physical_def conv a b)
  \<comment> \<open>\<^verbatim>\<open>u * 25600.0\<close>\<close>
  have lx2: "2 powr (- 1022) \<le> x2 * nom / 25600" and ux2: "x2 * nom < 2 powr 1023"
    using bB r by (intro scaled_in_normal_range nom; simp)+
  have mx2: "x2 * nom / 25600 \<le> x2 * nom" using bB r npos by (simp add: field_simps)
  have "2 powr (- 1022) \<le> b * 25600" "b * 25600 < 2 powr 1023"
    unfolding b_eq using order_trans [OF lx2 mx2] ux2 by this+
  from round_binary64_pos [OF this] obtain c
    where c: "round_binary64 (b * 25600) = Finite c"
      and ec: "\<bar>c - b * 25600\<bar> \<le> b * 25600 / 2 ^ 53"
    by blast
  define x3 where "x3 = c / nom"
  have "\<bar>c / nom - b * 25600 / nom\<bar> \<le> (b * 25600 / nom) / 2 ^ 53"
    by (rule rel_err_div [OF npos ec])
  then have C: "\<bar>x3 - x2\<bar> \<le> x2 / 9007199254740992"
    by (simp add: x3_def x2_def)
  have bC: "r / 8 \<le> x3" "x3 \<le> 8 * r" using C bB r by linarith+
  \<comment> \<open>\<^verbatim>\<open>/ nom\<close>\<close>
  have "(2::real) powr (- 1022) \<le> 2 powr (- 3)" by (intro powr_mono) simp_all
  also have "\<dots> = 1 / 8" using powr_minus_nat [of 3] by simp
  also have "\<dots> \<le> x3" using bC r by linarith
  finally have l3: "2 powr (- 1022) \<le> c / nom" by (simp add: x3_def)
  have "x3 \<le> 2 ^ 18" using bC r by simp
  also have "(2::real) ^ 18 = 2 powr 18" using powr_plus_nat [of 18] by simp
  also have "\<dots> < 2 powr 1023" by (intro powr_less_mono) simp_all
  finally have u3: "c / nom < 2 powr 1023" by (simp add: x3_def)
  from round_binary64_pos [OF l3 u3] obtain d
    where d: "round_binary64 (c / nom) = Finite d" and ed: "\<bar>d - c / nom\<bar> \<le> c / nom / 2 ^ 53"
    by blast
  have D: "\<bar>d - x3\<bar> \<le> x3 / 9007199254740992"
    using ed by (simp add: x3_def)
  have "\<bar>d - r\<bar> \<le> 15 * r / 9007199254740992" using A B C D bA bB bC by linarith
  with r have "\<bar>d - r\<bar> < 1 / 2" by linarith
  then have "\<bar>d - of_int raw\<bar> < 1 / 2" by (simp only: r_def)
  then have "py_round d = raw" by (rule py_round_unique)
  then have "physical_to_raw (Finite b) (Finite nom) = Inr raw"
    using npos by (simp add: physical_to_raw_def c d)
  with phys show ?thesis by blast
qed

lemma float_truediv_zero: "float_truediv x (Finite 0) = Inl ZeroDivisionError"
  by (cases x) simp_all

lemma physical_to_raw_example: "physical_to_raw (Finite 12) (Finite 24) = Inr 12800"
proof -
  have 1: "round_binary64 307200 = Finite 307200"
    using round_binary64_of_int [of 307200] by simp
  have 2: "round_binary64 12800 = Finite 12800"
    using round_binary64_of_int [of 12800] by simp
  have 3: "py_round 12800 = 12800" using py_round_of_int [of 12800] by simp
  show ?thesis by (simp add: physical_to_raw_def 1 2 3)
qed

text \<open>
  Claim C7, as the code has it. For every nominal value that is a positive finite 32-bit
  float, as \<^verbatim>\<open>__init__\<close> decodes it (from 2 to the power -149 up to, but not reaching,
  2 to the power 128), and every raw integer from 0 to 25600, scaling the raw value to
  a physical one as the getters do (\<^verbatim>\<open>nom * raw / 25600\<close>) and back as \<^verbatim>\<open>set_voltage\<close>
  and \<^verbatim>\<open>set_current\<close> do (\<^verbatim>\<open>int(round((u * 25600.0) / nom))\<close>) succeeds and yields a
  raw value within one of the original.
\<close>

theorem scaling_round_trip_within_one:
  assumes "1 / 2 ^ 149 \<le> nom" and "nom < 2 ^ 128" and "0 \<le> raw" and "raw \<le> 25600"
  shows "\<exists>p raw'. raw_to_physical (Finite nom) raw = Inr p
           \<and> physical_to_raw p (Finite nom) = Inr raw' \<and> \<bar>raw' - raw\<bar> \<le> 1"
proof -
  from physical_to_raw_inverse [OF assms] obtain p
    where "raw_to_physical (Finite nom) raw = Inr (Finite p)"
      and "physical_to_raw (Finite p) (Finite nom) = Inr raw"
    by blast
  then show ?thesis by (intro exI [of _ "Finite p"] exI [of _ raw]) simp
qed

theorem scaling_round_trip_within_one_witness:
  "1 / 2 ^ 149 \<le> (24::real) \<and> (24::real) < 2 ^ 128 \<and> (0::int) \<le> 12800
   \<and> (12800::int) \<le> 25600
   \<and> (\<exists>p raw'. raw_to_physical (Finite 24) 12800 = Inr p
          \<and> physical_to_raw p (Finite 24) = Inr raw' \<and> \<bar>raw' - 12800\<bar> \<le> 1)"
  using scaling_round_trip_within_one [of 24 12800] by simp

text \<open>
  The nominal value \<open>+inf\<close>, which is greater than 0 and which the four bytes
  \<open>7f 80 00 00\<close> of an answer decode to: the physical value of raw 12800 is \<open>+inf\<close>,
  and scaling it back divides \<open>+inf\<close> by \<open>+inf\<close> and raises \<^verbatim>\<open>ValueError\<close> in
  \<^verbatim>\<open>round\<close>, so there is no raw value at all.
\<close>

theorem scaling_round_trip_infinite_nominal:
  "float_lt (Finite 0) PInf
   \<and> raw_to_physical PInf 12800 = Inr PInf
   \<and> physical_to_raw PInf PInf = Inl ValueError"
proof -
  have "float_of_int 12800 = Inr (Finite 12800)"
    using float_of_int_exact [of 12800] by simp
  then show ?thesis
    by (simp add: raw_to_physical_def physical_to_raw_def signed_inf_def)
qed

text \<open>
  Claim C4, as the code has it. With a zero nominal value \<^verbatim>\<open>set_voltage\<close> and
  \<^verbatim>\<open>set_current\<close> fail at once, before any telegram is built or written and with the
  session unchanged, and the error is the \<^verbatim>\<open>ZeroDivisionError\<close> of the scaling division
  itself: the source has no check of the nominal value.
\<close>

theorem scaled_setters_zero_nominal:
  "(u_nom s = Finite 0 \<longrightarrow> set_voltage u node s = (Inl ZeroDivisionError, s))
   \<and> (i_nom s = Finite 0 \<longrightarrow> set_current i node s = (Inl ZeroDivisionError, s))"
  by (simp add: set_voltage_def set_current_def physical_to_raw_def float_truediv_zero)

theorem scaled_setters_zero_nominal_witness:
  "u_nom ((example_session [])\<lparr>u_nom := Finite 0, i_nom := Finite 0\<rparr>) = Finite 0
   \<and> i_nom ((example_session [])\<lparr>u_nom := Finite 0, i_nom := Finite 0\<rparr>) = Finite 0
   \<and> set_voltage (Finite 12) 0 ((example_session [])\<lparr>u_nom := Finite 0, i_nom := Finite 0\<rparr>)
       = (Inl ZeroDivisionError,
          (example_session [])\<lparr>u_nom := Finite 0, i_nom := Finite 0\<rparr>)
   \<and> set_current (Finite 5) 0 ((example_session [])\<lparr>u_nom := Finite 0, i_nom := Finite 0\<rparr>)
       = (Inl ZeroDivisionError,
          (example_session [])\<lparr>u_nom := Finite 0, i_nom := Finite 0\<rparr>)"
  using scaled_setters_zero_nominal
          [of "(example_session [])\<lparr>u_nom := Finite 0, i_nom := Finite 0\<rparr>"
              "Finite 12" 0 "Finite 5"]
  by simp

text \<open>Setting 12 V on a session whose nominal voltage is 0 raises \<^verbatim>\<open>ZeroDivisionError\<close>.\<close>

theorem set_voltage_zero_nominal_raises:
  "set_voltage (Finite 12) 0 ((example_session [])\<lparr>u_nom := Finite 0\<rparr>)
     = (Inl ZeroDivisionError, (example_session [])\<lparr>u_nom := Finite 0\<rparr>)"
  by (simp add: set_voltage_def physical_to_raw_def float_truediv_zero)

text \<open>
  Claim C3 at a concrete input. On a 24 V, 10 A device, \<^verbatim>\<open>set_voltage(12)\<close> sends the
  raw value 12800 (data bytes \<open>32 00\<close>), the value of the scaling formula, whereas
  \<^verbatim>\<open>set_OVP_threshold(12)\<close> sends its argument as it is (data bytes \<open>00 0c\<close>), and
  \<^verbatim>\<open>set_OCP_threshold(5)\<close> likewise (data bytes \<open>00 05\<close>).
\<close>

theorem set_OVP_threshold_sends_unscaled:
  "u_nom (example_session []) = Finite 24
   \<and> physical_to_raw (Finite 12) (Finite 24) = Inr 12800
   \<and> written (snd (set_voltage (Finite 12) 0 (example_session [])))
       = [[0xF1, 0x00, 50, 0x32, 0x00, 0x01, 0x55]]
   \<and> written (snd (set_OVP_threshold 12 0 (example_session [])))
       = [[0xF1, 0x00, 38, 0x00, 0x0C, 0x01, 0x23]]
   \<and> written (snd (set_OCP_threshold 5 0 (example_session [])))
       = [[0xF1, 0x00, 39, 0x00, 0x05, 0x01, 0x1D]]"
  by (simp add: physical_to_raw_example set_voltage_def set_OVP_threshold_def
        set_OCP_threshold_def set_integer_def drop_bit_8_int and_0xFF_int run_defs)

end
